theory Spec2Isabelle
  imports Complex_Main "HOL-Library.Multiset"
begin

section \<open>Numbers, clock readings and text\<close>

text \<open>
  Python's \<open>float\<close> values are modelled by the real numbers and Python's \<open>int\<close> by the
  integers: every result below is a statement about the arithmetic the source writes down,
  with exact instead of rounded operations. \<open>int(x)\<close> truncates towards zero.
\<close>

definition py_int :: "real \<Rightarrow> int" where
  "py_int x = (if 0 \<le> x then \<lfloor>x\<rfloor> else \<lceil>x\<rceil>)"

text \<open>\<open>math.radians\<close>: degrees to radians.\<close>

definition radians :: "real \<Rightarrow> real" where
  "radians d = d * pi / 180"

section \<open>geolocation.py: the distance engine\<close>

record Location =
  latitude :: real
  longitude :: real
  address :: "string option"

record DistanceResult =
  distance_km :: real
  distance_miles :: real
  estimated_travel_time_minutes :: int
  route_summary :: "string option"

definition earth_radius_km :: real where
  "earth_radius_km = 6371"

text \<open>The quantity \<open>a\<close> of the Haversine formula, from the four angles in degrees.\<close>

definition haversine_a :: "real \<Rightarrow> real \<Rightarrow> real \<Rightarrow> real \<Rightarrow> real" where
  "haversine_a lat1 lon1 lat2 lon2 =
     (let lat1_rad = radians lat1;
          lon1_rad = radians lon1;
          lat2_rad = radians lat2;
          lon2_rad = radians lon2;
          dlat = lat2_rad - lat1_rad;
          dlon = lon2_rad - lon1_rad
      in (sin (dlat / 2))\<^sup>2 + cos lat1_rad * cos lat2_rad * (sin (dlon / 2))\<^sup>2)"

definition haversine_distance :: "real \<Rightarrow> real \<Rightarrow> real \<Rightarrow> real \<Rightarrow> real" where
  "haversine_distance lat1 lon1 lat2 lon2 =
     (let a = haversine_a lat1 lon1 lat2 lon2;
          c = 2 * arcsin (sqrt a)
      in earth_radius_km * c)"

definition calculate_distance :: "Location \<Rightarrow> Location \<Rightarrow> DistanceResult" where
  "calculate_distance location1 location2 =
     (let d = haversine_distance (latitude location1) (longitude location1)
                                 (latitude location2) (longitude location2)
      in \<lparr> distance_km = d,
           distance_miles = d * 0.621371,
           estimated_travel_time_minutes = py_int ((d / 50) * 60),
           route_summary = None \<rparr>)"


text \<open>
  Modelled from the spec: the \<open>Hospital\<close> entity of \<open>models.py\<close>, which the source imports
  and reads only through \<open>latitude\<close> and \<open>longitude\<close>. The spec lists id, name and the
  coordinate.
\<close>

record Hospital =
  hospital_id :: int
  hospital_name :: string
  hospital_latitude :: real
  hospital_longitude :: real

definition Location_of :: "real \<Rightarrow> real \<Rightarrow> Location" where
  "Location_of lat lon = \<lparr> latitude = lat, longitude = lon, address = None \<rparr>"

text \<open>
  The loop of \<open>find_nearest_hospitals\<close>: \<open>nearby_hospitals\<close> is the accumulator, and a
  hospital is appended when its distance is within the radius.
\<close>

fun nearby_loop ::
  "Location \<Rightarrow> real \<Rightarrow> Hospital list \<Rightarrow> (Hospital \<times> DistanceResult) list
     \<Rightarrow> (Hospital \<times> DistanceResult) list" where
  "nearby_loop user_location max_distance_km [] nearby_hospitals = nearby_hospitals"
| "nearby_loop user_location max_distance_km (hospital # rest) nearby_hospitals =
     (let hospital_location = Location_of (hospital_latitude hospital) (hospital_longitude hospital);
          distance_result = calculate_distance user_location hospital_location
      in nearby_loop user_location max_distance_km rest
           (if distance_km distance_result \<le> max_distance_km
            then nearby_hospitals @ [(hospital, distance_result)]
            else nearby_hospitals))"

text \<open>
  \<open>list.sort(key=...)\<close> is a stable sort; \<open>sort_key\<close> is the stable insertion sort of the
  library. A stable sort by key has one possible result, so the two agree.
\<close>

definition find_nearest_hospitals ::
  "real \<Rightarrow> real \<Rightarrow> Hospital list \<Rightarrow> real \<Rightarrow> (Hospital \<times> DistanceResult) list" where
  "find_nearest_hospitals user_latitude user_longitude hospitals max_distance_km =
     (let user_location = Location_of user_latitude user_longitude;
          nearby_hospitals = nearby_loop user_location max_distance_km hospitals []
      in sort_key (\<lambda>x. distance_km (snd x)) nearby_hospitals)"

text \<open>The pair the loop computes for one hospital.\<close>

definition hospital_distance :: "real \<Rightarrow> real \<Rightarrow> Hospital \<Rightarrow> Hospital \<times> DistanceResult" where
  "hospital_distance user_latitude user_longitude hospital =
     (hospital, calculate_distance (Location_of user_latitude user_longitude)
        (Location_of (hospital_latitude hospital) (hospital_longitude hospital)))"

text \<open>A hospital half a turn of longitude away from the origin, on the equator.\<close>

definition far_hospital :: Hospital where
  "far_hospital = \<lparr> hospital_id = 2, hospital_name = ''Far'',
                     hospital_latitude = 0, hospital_longitude = 180 \<rparr>"

text \<open>The speed table of \<open>calculate_route_time\<close> with its default: \<open>{...}.get(transport_mode, 50)\<close>.\<close>

definition speed_kmh_for :: "string \<Rightarrow> real" where
  "speed_kmh_for mode =
     (case map_of [(''driving'', 50), (''walking'', 5), (''cycling'', 15),
                   (''public_transport'', 30)] mode of
        None \<Rightarrow> 50
      | Some v \<Rightarrow> v)"

definition calculate_route_time ::
  "real \<Rightarrow> real \<Rightarrow> real \<Rightarrow> real \<Rightarrow> string \<Rightarrow> DistanceResult option" where
  "calculate_route_time start_lat start_lon end_lat end_lon mode =
     (let d = haversine_distance start_lat start_lon end_lat end_lon;
          speed_kmh = speed_kmh_for mode;
          travel_time_minutes = py_int ((d / speed_kmh) * 60)
      in Some \<lparr> distance_km = d,
                distance_miles = d * 0.621371,
                estimated_travel_time_minutes = travel_time_minutes,
                route_summary = None \<rparr>)"

section \<open>geolocation.py: the compatibility scorer\<close>

text \<open>
  Modelled from the spec: the \<open>OrganAvailability\<close> entity of \<open>models.py\<close>, of which the
  scorer reads \<open>blood_type\<close> and \<open>condition\<close>. Both are text columns and may be absent
  (\<open>None\<close>); the recipient's blood type is an optional argument, \<open>None\<close> by default.
\<close>

record OrganAvailability =
  blood_type :: "string option"
  condition :: "string option"
  quantity :: int

text \<open>Truth value of an optional string in a Python condition: \<open>None\<close> and the empty string are false.\<close>

definition truthy :: "string option \<Rightarrow> bool" where
  "truthy s = (case s of None \<Rightarrow> False | Some t \<Rightarrow> t \<noteq> [])"

definition compatible_pairs :: "(string \<times> string list) list" where
  "compatible_pairs =
     [(''O-'', [''O-'']),
      (''O+'', [''O-'', ''O+'']),
      (''A-'', [''O-'', ''A-'']),
      (''A+'', [''O-'', ''O+'', ''A-'', ''A+'']),
      (''B-'', [''O-'', ''B-'']),
      (''B+'', [''O-'', ''O+'', ''B-'', ''B+'']),
      (''AB-'', [''O-'', ''A-'', ''B-'', ''AB-'']),
      (''AB+'', [''O-'', ''O+'', ''A-'', ''A+'', ''B-'', ''B+'', ''AB-'', ''AB+''])]"

text \<open>\<open>_is_blood_type_compatible\<close>: the donor is in the recipient's row; an unknown recipient has an empty row.\<close>

definition is_blood_type_compatible :: "string \<Rightarrow> string \<Rightarrow> bool" where
  "is_blood_type_compatible recipient donor =
     (donor \<in> set (case map_of compatible_pairs recipient of None \<Rightarrow> [] | Some ds \<Rightarrow> ds))"

definition condition_scores :: "(string \<times> real) list" where
  "condition_scores = [(''excellent'', 0.2), (''good'', 0.1), (''fair'', 0.05)]"

text \<open>\<open>condition_scores.get(condition, 0)\<close>.\<close>

definition condition_score :: "string option \<Rightarrow> real" where
  "condition_score c =
     (case c of None \<Rightarrow> 0
      | Some t \<Rightarrow> (case map_of condition_scores t of None \<Rightarrow> 0 | Some v \<Rightarrow> v))"

definition get_organ_availability_score :: "OrganAvailability \<Rightarrow> string option \<Rightarrow> real" where
  "get_organ_availability_score organ_availability user_blood_type =
     (let score = 0.5;
          score = (if truthy user_blood_type \<and> truthy (blood_type organ_availability)
                   then (if user_blood_type = blood_type organ_availability then score + 0.3
                         else if is_blood_type_compatible (the user_blood_type)
                                   (the (blood_type organ_availability))
                         then score + 0.2
                         else score)
                   else score);
          score = score + condition_score (condition organ_availability)
      in min score 1.0)"

text \<open>
  The scoring rule in the words of the specification: the ABO/Rh table by recipient, the
  blood bonus by equality and then by the table, and the condition bonus.
\<close>

definition spec_accepts :: "string \<Rightarrow> string set" where
  "spec_accepts recipient =
     (if recipient = ''O-'' then {''O-''}
      else if recipient = ''O+'' then {''O-'', ''O+''}
      else if recipient = ''A-'' then {''O-'', ''A-''}
      else if recipient = ''A+'' then {''O-'', ''O+'', ''A-'', ''A+''}
      else if recipient = ''B-'' then {''O-'', ''B-''}
      else if recipient = ''B+'' then {''O-'', ''O+'', ''B-'', ''B+''}
      else if recipient = ''AB-'' then {''O-'', ''A-'', ''B-'', ''AB-''}
      else if recipient = ''AB+''
        then {''O-'', ''O+'', ''A-'', ''A+'', ''B-'', ''B+'', ''AB-'', ''AB+''}
      else {})"

definition spec_compatible :: "string option \<Rightarrow> string option \<Rightarrow> bool" where
  "spec_compatible recipient donor =
     (case (recipient, donor) of (Some r, Some d) \<Rightarrow> d \<in> spec_accepts r | _ \<Rightarrow> False)"

definition spec_blood_bonus :: "string option \<Rightarrow> string option \<Rightarrow> real" where
  "spec_blood_bonus recipient donor =
     (if recipient = donor then 0.3
      else if spec_compatible recipient donor then 0.2
      else 0)"

definition spec_condition_bonus :: "string option \<Rightarrow> real" where
  "spec_condition_bonus c =
     (if c = Some ''excellent'' then 0.2
      else if c = Some ''good'' then 0.1
      else if c = Some ''fair'' then 0.05
      else 0)"

text \<open>The blood bonus the source adds: the bonus of the specification behind the guard on both blood types.\<close>

definition guarded_blood_bonus :: "string option \<Rightarrow> string option \<Rightarrow> real" where
  "guarded_blood_bonus recipient donor =
     (if truthy recipient \<and> truthy donor then spec_blood_bonus recipient donor else 0)"

text \<open>A record of the sample data: an organ of blood type \<open>A+\<close> in good condition.\<close>

definition demo_organ :: OrganAvailability where
  "demo_organ = \<lparr> blood_type = Some ''A+'', condition = Some ''good'', quantity = 1 \<rparr>"

section \<open>routing_service.py: the route synthesizer\<close>

text \<open>
  A \<open>datetime\<close> is its number of microseconds since the epoch; \<open>datetime.now()\<close> is an
  argument of the function that reads the clock. \<open>timedelta(minutes=n)\<close> is \<open>n\<close> minutes of
  microseconds.
\<close>

type_synonym datetime = int

definition plus_minutes :: "datetime \<Rightarrow> int \<Rightarrow> datetime" where
  "plus_minutes t n = t + n * 60000000"

text \<open>\<open>round(x, 2)\<close>: to the nearest hundredth, a tie to the even one.\<close>

definition round_half_even :: "real \<Rightarrow> int" where
  "round_half_even x =
     (let f = \<lfloor>x\<rfloor>; d = x - of_int f
      in if d < 1 / 2 then f
         else if 1 / 2 < d then f + 1
         else if even f then f else f + 1)"

definition py_round2 :: "real \<Rightarrow> real" where
  "py_round2 x = of_int (round_half_even (x * 100)) / 100"

text \<open>The decimal text of an integer, as an f-string renders it.\<close>

definition digit_char :: "nat \<Rightarrow> char" where
  "digit_char d = ''0123456789'' ! d"

fun str_nat :: "nat \<Rightarrow> string" where
  "str_nat n = (if n < 10 then [digit_char n] else str_nat (n div 10) @ [digit_char (n mod 10)])"

definition str_int :: "int \<Rightarrow> string" where
  "str_int i = (if i < 0 then CHR ''-'' # str_nat (nat (- i)) else str_nat (nat i))"

record RouteStep =
  instruction :: string
  distance_meters :: real
  duration_seconds :: int
  step_start_location :: "real \<times> real"
  step_end_location :: "real \<times> real"

record Route =
  start_location :: "real \<times> real"
  end_location :: "real \<times> real"
  total_distance_km :: real
  total_duration_minutes :: int
  steps :: "RouteStep list"
  transport_mode :: string
  estimated_arrival :: datetime

definition create_simplified_route_steps ::
  "real \<Rightarrow> real \<Rightarrow> real \<Rightarrow> real \<Rightarrow> real \<Rightarrow> RouteStep list" where
  "create_simplified_route_steps start_lat start_lon end_lat end_lon total_distance =
     (let mid_lat = (start_lat + end_lat) / 2;
          mid_lon = (start_lon + end_lon) / 2;
          step1_distance = total_distance * 0.5 * 1000;
          step1_duration = py_int (step1_distance / 1000 * 60);
          step2_distance = total_distance * 0.5 * 1000;
          step2_duration = py_int (step2_distance / 1000 * 60)
      in [\<lparr> instruction = ''Start navigation to destination'',
            distance_meters = step1_distance,
            duration_seconds = step1_duration,
            step_start_location = (start_lat, start_lon),
            step_end_location = (mid_lat, mid_lon) \<rparr>,
          \<lparr> instruction = ''Continue to hospital destination'',
            distance_meters = step2_distance,
            duration_seconds = step2_duration,
            step_start_location = (mid_lat, mid_lon),
            step_end_location = (end_lat, end_lon) \<rparr>])"

text \<open>\<open>get_route\<close>; \<open>current_time\<close> is the clock reading it takes.\<close>

definition get_route ::
  "datetime \<Rightarrow> real \<Rightarrow> real \<Rightarrow> real \<Rightarrow> real \<Rightarrow> string \<Rightarrow> Route" where
  "get_route current_time start_lat start_lon end_lat end_lon mode =
     (let distance_result =
            calculate_distance (Location_of start_lat start_lon) (Location_of end_lat end_lon);
          route_steps = create_simplified_route_steps start_lat start_lon end_lat end_lon
                          (distance_km distance_result);
          arrival = plus_minutes current_time (estimated_travel_time_minutes distance_result)
      in \<lparr> start_location = (start_lat, start_lon),
           end_location = (end_lat, end_lon),
           total_distance_km = distance_km distance_result,
           total_duration_minutes = estimated_travel_time_minutes distance_result,
           steps = route_steps,
           transport_mode = mode,
           estimated_arrival = arrival \<rparr>)"

text \<open>
  The payload of \<open>get_emergency_route\<close>: its \<open>route\<close>, \<open>emergency_info\<close> and \<open>steps\<close>
  entries. The arrival time is kept as a \<open>datetime\<close>; its ISO text is not modelled.
\<close>

record EmergencyRouteInfo =
  er_start :: "real \<times> real"
  er_end :: "real \<times> real"
  er_total_distance_km :: real
  er_total_duration_minutes :: int
  er_transport_mode :: string
  er_estimated_arrival :: datetime
  er_is_emergency :: bool

record EmergencyInfo =
  priority :: string
  estimated_time_saved :: string
  recommendations :: "string list"

record EmergencyRoute =
  er_route :: EmergencyRouteInfo
  er_emergency_info :: EmergencyInfo
  er_steps :: "RouteStep list"

text \<open>
  \<open>get_emergency_route\<close> reads the clock twice: inside \<open>get_route\<close> (\<open>route_time\<close>) and for
  the emergency arrival (\<open>current_time\<close>).
\<close>

definition get_emergency_route ::
  "datetime \<Rightarrow> datetime \<Rightarrow> real \<Rightarrow> real \<Rightarrow> real \<Rightarrow> real \<Rightarrow> EmergencyRoute" where
  "get_emergency_route route_time current_time user_lat user_lon hospital_lat hospital_lon =
     (let route = get_route route_time user_lat user_lon hospital_lat hospital_lon ''emergency'';
          emergency_duration = py_int (of_int (total_duration_minutes route) * 0.8);
          emergency_arrival = plus_minutes current_time emergency_duration
      in \<lparr> er_route =
             \<lparr> er_start = start_location route,
               er_end = end_location route,
               er_total_distance_km = py_round2 (total_distance_km route),
               er_total_duration_minutes = emergency_duration,
               er_transport_mode = ''emergency'',
               er_estimated_arrival = emergency_arrival,
               er_is_emergency = True \<rparr>,
           er_emergency_info =
             \<lparr> priority = ''HIGH'',
               estimated_time_saved =
                 str_int (total_duration_minutes route - emergency_duration) @ '' minutes'',
               recommendations =
                 [''Use emergency lanes if available'',
                  ''Contact hospital in advance'',
                  ''Prepare medical documents'',
                  ''Have emergency contacts ready''] \<rparr>,
           er_steps =
             map (\<lambda>step. step\<lparr> duration_seconds :=
                                  py_int (of_int (duration_seconds step) * 0.8) \<rparr>)
               (steps route) \<rparr>)"

section \<open>routing_service.py: the navigation session tracker\<close>

text \<open>
  The text of \<open>datetime.now().timestamp()\<close> in the f-string of the session id: the seconds
  since the epoch, a point, and the microseconds as a six-digit fraction without its
  trailing zeros (at least one digit), which is how Python prints the float of a clock
  reading of the present epoch.
\<close>

definition strip_trailing_zeros :: "string \<Rightarrow> string" where
  "strip_trailing_zeros s =
     (let t = rev (dropWhile (\<lambda>c. c = CHR ''0'') (rev s)) in if t = [] then ''0'' else t)"

definition fraction_text :: "nat \<Rightarrow> string" where
  "fraction_text us =
     strip_trailing_zeros (replicate (6 - length (str_nat us)) CHR ''0'' @ str_nat us)"

definition str_timestamp :: "datetime \<Rightarrow> string" where
  "str_timestamp t =
     (let m = nat \<bar>t\<bar>;
          body = str_nat (m div 1000000) @ ''.'' @ fraction_text (m mod 1000000)
      in if t < 0 then CHR ''-'' # body else body)"

text \<open>
  A navigation session: the dictionary stored in \<open>active_navigations\<close>. The keys
  \<open>last_update\<close>, \<open>current_position\<close> and \<open>ended_at\<close> are absent until they are first written.
\<close>

record NavigationSession =
  session_id :: string
  user_id :: string
  route :: Route
  current_step :: int
  started_at :: datetime
  status :: string
  last_update :: "datetime option"
  current_position :: "(real \<times> real) option"
  ended_at :: "datetime option"

type_synonym active_navigations = "string \<rightharpoonup> NavigationSession"

text \<open>What a Python subscript raises out of range.\<close>

datatype py_exception = IndexError

text \<open>
  A returned dictionary is either the error payload \<open>{"error": message}\<close> or the payload of
  the operation.
\<close>

datatype 'a payload = ErrorPayload string | Payload 'a

fun is_error :: "'a payload \<Rightarrow> bool" where
  "is_error (ErrorPayload msg) = True"
| "is_error (Payload p) = False"

text \<open>The payload of \<open>start_navigation\<close>, its nested \<open>route\<close> and \<open>current_step\<close> entries flattened.\<close>

record StartResponse =
  sn_navigation_id :: string
  sn_total_distance_km :: real
  sn_total_duration_minutes :: int
  sn_estimated_arrival :: datetime
  sn_instruction :: string
  sn_distance_meters :: real
  sn_duration_seconds :: int
  sn_status :: string

text \<open>
  \<open>start_navigation\<close> reads the clock three times: for the id (\<open>id_time\<close>), inside
  \<open>get_route\<close> (\<open>route_time\<close>) and for \<open>started_at\<close> (\<open>start_time\<close>). The session is stored
  before the response is built from \<open>route.steps[0]\<close>.
\<close>

definition start_navigation ::
  "active_navigations \<Rightarrow> datetime \<Rightarrow> datetime \<Rightarrow> datetime \<Rightarrow> string
     \<Rightarrow> real \<Rightarrow> real \<Rightarrow> real \<Rightarrow> real \<Rightarrow> string
     \<Rightarrow> active_navigations \<times> (py_exception + StartResponse)" where
  "start_navigation navs id_time route_time start_time uid start_lat start_lon end_lat end_lon mode =
     (let navigation_id = ''nav_'' @ uid @ ''_'' @ str_timestamp id_time;
          r = get_route route_time start_lat start_lon end_lat end_lon mode;
          navigation_session =
            \<lparr> session_id = navigation_id,
              user_id = uid,
              route = r,
              current_step = 0,
              started_at = start_time,
              status = ''active'',
              last_update = None,
              current_position = None,
              ended_at = None \<rparr>;
          navs' = navs(navigation_id \<mapsto> navigation_session)
      in (navs',
          case steps r of
            [] \<Rightarrow> Inl IndexError
          | first # rest \<Rightarrow>
              Inr \<lparr> sn_navigation_id = navigation_id,
                    sn_total_distance_km = total_distance_km r,
                    sn_total_duration_minutes = total_duration_minutes r,
                    sn_estimated_arrival = estimated_arrival r,
                    sn_instruction = instruction first,
                    sn_distance_meters = distance_meters first,
                    sn_duration_seconds = duration_seconds first,
                    sn_status = ''started'' \<rparr>))"

record UpdateResponse =
  un_navigation_id :: string
  remaining_distance_km :: real
  estimated_time_remaining_minutes :: int
  un_current_step :: int
  un_status :: string

definition update_navigation ::
  "active_navigations \<Rightarrow> datetime \<Rightarrow> string \<Rightarrow> real \<Rightarrow> real
     \<Rightarrow> active_navigations \<times> UpdateResponse payload" where
  "update_navigation navs current_time navigation_id current_lat current_lon =
     (case navs navigation_id of
        None \<Rightarrow> (navs, ErrorPayload ''Navigation session not found'')
      | Some session \<Rightarrow>
          (let r = route session;
               current_location = Location_of current_lat current_lon;
               destination = Location_of (fst (end_location r)) (snd (end_location r));
               remaining_distance = calculate_distance current_location destination;
               session' = session\<lparr> last_update := Some current_time,
                                   current_position := Some (current_lat, current_lon) \<rparr>
           in (navs(navigation_id \<mapsto> session'),
               Payload \<lparr> un_navigation_id = navigation_id,
                         remaining_distance_km = py_round2 (distance_km remaining_distance),
                         estimated_time_remaining_minutes =
                           estimated_travel_time_minutes remaining_distance,
                         un_current_step = current_step session',
                         un_status = ''active'' \<rparr>)))"

record EndResponse =
  en_navigation_id :: string
  en_status :: string
  duration_minutes :: int

text \<open>\<open>(ended_at - started_at).total_seconds() / 60\<close>, truncated.\<close>

definition end_navigation ::
  "active_navigations \<Rightarrow> datetime \<Rightarrow> string \<Rightarrow> active_navigations \<times> EndResponse payload" where
  "end_navigation navs current_time navigation_id =
     (case navs navigation_id of
        None \<Rightarrow> (navs, ErrorPayload ''Navigation session not found'')
      | Some session \<Rightarrow>
          (let session' = session\<lparr> status := ''completed'', ended_at := Some current_time \<rparr>
           in (navs(navigation_id \<mapsto> session'),
               Payload \<lparr> en_navigation_id = navigation_id,
                         en_status = ''completed'',
                         duration_minutes =
                           py_int (real_of_int (current_time - started_at session') / 1000000 / 60)
                       \<rparr>)))"

text \<open>
  A session table with one session, started by user \<open>u1\<close> at the clock reading
  1730000000.25 s for a destination \<open>pi\<close> metres east of the origin on the equator.
\<close>

definition demo_time :: datetime where
  "demo_time = 1730000000250000"

definition demo_navs :: active_navigations where
  "demo_navs =
     fst (start_navigation Map.empty demo_time demo_time demo_time ''u1''
            0 0 0 (9 / 318550) ''driving'')"

definition demo_id :: string where
  "demo_id = ''nav_u1_1730000000.25''"

section \<open>Auxiliary notions for the text of a session id\<close>






section \<open>The distance engine: domain of the formula, sign, symmetry\<close>

text \<open>
  \<open>math.sqrt\<close> and \<open>math.asin\<close> raise outside their domains. Over the reals the argument of
  the square root lies in \<open>[0, 1]\<close> for all angles, so neither call leaves its domain and the
  model has no error branch for them.
\<close>

lemma sin_half_squared: "(sin (x / 2))\<^sup>2 = (1 - cos x) / (2::real)"
  using cos_double_sin [of "x / 2"] by simp

lemma haversine_a_alt:
  "haversine_a lat1 lon1 lat2 lon2 =
     (1 - cos (radians lat2 - radians lat1)) / 2
     + (cos (radians lat1 - radians lat2) + cos (radians lat1 + radians lat2)) / 2
       * (sin ((radians lon2 - radians lon1) / 2))\<^sup>2"
  by (simp add: haversine_a_def Let_def sin_half_squared cos_times_cos)

lemma haversine_a_bounds:
  "0 \<le> haversine_a lat1 lon1 lat2 lon2 \<and> haversine_a lat1 lon1 lat2 lon2 \<le> 1"
proof -
  define d where "d = cos (radians lat1 - radians lat2)"
  define e where "e = cos (radians lat1 + radians lat2)"
  define s where "s = (sin ((radians lon2 - radians lon1) / 2))\<^sup>2"
  have dd: "cos (radians lat2 - radians lat1) = d"
    unfolding d_def using cos_minus [of "radians lat1 - radians lat2"] by simp
  have a: "haversine_a lat1 lon1 lat2 lon2 = (1 - d) / 2 + (d + e) / 2 * s"
    by (simp add: haversine_a_alt dd d_def e_def s_def)
  have d1: "- 1 \<le> d" "d \<le> 1" by (simp_all add: d_def)
  have e1: "- 1 \<le> e" "e \<le> 1" by (simp_all add: e_def)
  have s0: "0 \<le> s" by (simp add: s_def)
  have s1: "s \<le> 1"
    unfolding s_def using abs_sin_le_one [of "(radians lon2 - radians lon1) / 2"]
    by (simp add: abs_square_le_1)
  have eq: "(1 - d) / 2 + (d + e) / 2 * s = (1 - d) * (1 - s) / 2 + (1 + e) * s / 2"
    by (simp add: field_simps)
  have eq2: "1 - ((1 - d) / 2 + (d + e) / 2 * s) = (1 + d) * (1 - s) / 2 + (1 - e) * s / 2"
    by (simp add: field_simps)
  have p1: "0 \<le> (1 - d) * (1 - s)" "0 \<le> (1 + e) * s"
    using d1 e1 s0 s1 by simp_all
  have p2: "0 \<le> (1 + d) * (1 - s)" "0 \<le> (1 - e) * s"
    using d1 e1 s0 s1 by simp_all
  have lower: "0 \<le> (1 - d) * (1 - s) / 2 + (1 + e) * s / 2"
    by (rule add_nonneg_nonneg) (simp_all only: p1 zero_le_divide_iff zero_le_numeral simp_thms)
  have upper: "0 \<le> (1 + d) * (1 - s) / 2 + (1 - e) * s / 2"
    by (rule add_nonneg_nonneg) (simp_all only: p2 zero_le_divide_iff zero_le_numeral simp_thms)
  from lower have "0 \<le> haversine_a lat1 lon1 lat2 lon2"
    by (simp only: a eq)
  moreover from upper have "0 \<le> 1 - haversine_a lat1 lon1 lat2 lon2"
    by (simp only: a eq2)
  ultimately show ?thesis
    by simp
qed

lemma haversine_distance_nonneg: "0 \<le> haversine_distance lat1 lon1 lat2 lon2"
proof -
  let ?a = "haversine_a lat1 lon1 lat2 lon2"
  have "0 \<le> sqrt ?a" "sqrt ?a \<le> 1"
    using haversine_a_bounds [of lat1 lon1 lat2 lon2] by (simp_all add: real_le_lsqrt)
  then have "0 \<le> arcsin (sqrt ?a)"
    by (intro arcsin_nonneg) simp
  then show ?thesis
    by (simp add: haversine_distance_def Let_def earth_radius_km_def)
qed

lemma haversine_a_sym: "haversine_a lat1 lon1 lat2 lon2 = haversine_a lat2 lon2 lat1 lon1"
proof -
  have s: "(sin ((y - x) / 2))\<^sup>2 = (sin ((x - y) / 2))\<^sup>2" for x y :: real
  proof -
    have "(y - x) / 2 = - ((x - y) / 2)" by (simp add: field_simps)
    then have "sin ((y - x) / 2) = - sin ((x - y) / 2)"
      by (simp only: sin_minus)
    then show ?thesis by simp
  qed
  show ?thesis
    by (simp add: haversine_a_def Let_def s [of "radians lat1"] s [of "radians lon1"]
        mult.commute)
qed

text \<open>
  C6. The great-circle distance is symmetric in its two points:
  \<open>haversine_distance\<close> of A and B equals \<open>haversine_distance\<close> of B and A, for all
  coordinates.
\<close>

theorem haversine_distance_symmetric:
  "haversine_distance lat1 lon1 lat2 lon2 = haversine_distance lat2 lon2 lat1 lon1"
  by (simp add: haversine_distance_def haversine_a_sym [of lat1 lon1 lat2 lon2])

lemma py_int_nonneg: "0 \<le> x \<Longrightarrow> py_int x = \<lfloor>x\<rfloor>"
  by (simp add: py_int_def)

lemma haversine_distance_same: "haversine_distance lat lon lat lon = 0"
  by (simp add: haversine_distance_def haversine_a_def earth_radius_km_def)

lemma haversine_distance_half_turn: "haversine_distance 0 0 0 180 = 6371 * pi"
  by (simp add: haversine_distance_def haversine_a_def earth_radius_km_def radians_def)

section \<open>The hospital proximity filter\<close>

lemma nearby_loop_eq:
  "nearby_loop (Location_of ulat ulon) m hs acc =
     acc @ filter (\<lambda>x. distance_km (snd x) \<le> m) (map (hospital_distance ulat ulon) hs)"
  by (induction hs arbitrary: acc) (simp_all add: Let_def hospital_distance_def)

lemma find_nearest_hospitals_eq:
  "find_nearest_hospitals ulat ulon hs m =
     sort_key (\<lambda>x. distance_km (snd x))
       (filter (\<lambda>x. distance_km (snd x) \<le> m) (map (hospital_distance ulat ulon) hs))"
  by (simp add: find_nearest_hospitals_def Let_def nearby_loop_eq)

text \<open>
  C1. For every user coordinate, list of hospitals and radius, \<open>find_nearest_hospitals\<close>
  returns exactly the (hospital, distance result) pairs whose computed distance is at most
  the radius (as a multiset: each input hospital within the radius once, none else), in
  ascending order of \<open>distance_km\<close>, pairs of equal distance in their input order; and the
  result is the empty list when the input is empty or no hospital is within the radius.
\<close>

theorem find_nearest_hospitals_correct:
  "mset (find_nearest_hospitals ulat ulon hs m) =
     filter_mset (\<lambda>x. distance_km (snd x) \<le> m) (mset (map (hospital_distance ulat ulon) hs))
   \<and> sorted (map (\<lambda>x. distance_km (snd x)) (find_nearest_hospitals ulat ulon hs m))
   \<and> (\<forall>k. filter (\<lambda>x. distance_km (snd x) = k) (find_nearest_hospitals ulat ulon hs m) =
          filter (\<lambda>x. distance_km (snd x) = k)
            (filter (\<lambda>x. distance_km (snd x) \<le> m) (map (hospital_distance ulat ulon) hs)))
   \<and> (hs = [] \<longrightarrow> find_nearest_hospitals ulat ulon hs m = [])
   \<and> ((\<forall>h \<in> set hs. m < distance_km (snd (hospital_distance ulat ulon h)))
        \<longrightarrow> find_nearest_hospitals ulat ulon hs m = [])"
proof (intro conjI allI impI)
  show "mset (find_nearest_hospitals ulat ulon hs m) =
     filter_mset (\<lambda>x. distance_km (snd x) \<le> m) (mset (map (hospital_distance ulat ulon) hs))"
    by (simp add: find_nearest_hospitals_eq)
  show "sorted (map (\<lambda>x. distance_km (snd x)) (find_nearest_hospitals ulat ulon hs m))"
    by (simp add: find_nearest_hospitals_eq)
  show "filter (\<lambda>x. distance_km (snd x) = k) (find_nearest_hospitals ulat ulon hs m) =
          filter (\<lambda>x. distance_km (snd x) = k)
            (filter (\<lambda>x. distance_km (snd x) \<le> m) (map (hospital_distance ulat ulon) hs))" for k
    unfolding find_nearest_hospitals_eq by (rule sort_key_stable)
  show "find_nearest_hospitals ulat ulon hs m = []" if "hs = []"
    using that by (simp add: find_nearest_hospitals_eq)
  show "find_nearest_hospitals ulat ulon hs m = []"
    if "\<forall>h \<in> set hs. m < distance_km (snd (hospital_distance ulat ulon h))"
  proof -
    have "filter (\<lambda>x. distance_km (snd x) \<le> m) (map (hospital_distance ulat ulon) hs) = []"
      using that by (auto simp: filter_empty_conv)
    then show ?thesis
      by (simp add: find_nearest_hospitals_eq)
  qed
qed

theorem find_nearest_hospitals_correct_witness:
  "find_nearest_hospitals 0 0 [] 500 = []
   \<and> 500 < distance_km (snd (hospital_distance 0 0 far_hospital))
   \<and> find_nearest_hospitals 0 0 [far_hospital] 500 = []"
proof -
  have far: "500 < distance_km (snd (hospital_distance 0 0 far_hospital))"
    using pi_ge_two
    by (simp add: far_hospital_def hospital_distance_def calculate_distance_def Location_of_def
        Let_def haversine_distance_half_turn)
  show ?thesis
    using find_nearest_hospitals_correct [of 0 0 "[]" 500]
      find_nearest_hospitals_correct [of 0 0 "[far_hospital]" 500] far
    by simp
qed

section \<open>The compatibility scorer\<close>

lemma is_blood_type_compatible_spec:
  "is_blood_type_compatible recipient donor \<longleftrightarrow> donor \<in> spec_accepts recipient"
  by (simp add: is_blood_type_compatible_def compatible_pairs_def spec_accepts_def)

lemma condition_score_spec: "condition_score c = spec_condition_bonus c"
  by (cases c) (simp_all add: condition_score_def condition_scores_def spec_condition_bonus_def)

lemma spec_condition_bonus_range: "0 \<le> spec_condition_bonus c \<and> spec_condition_bonus c \<le> 0.2"
  by (simp add: spec_condition_bonus_def)

lemma guarded_blood_bonus_range:
  "0 \<le> guarded_blood_bonus recipient donor \<and> guarded_blood_bonus recipient donor \<le> 0.3"
  by (simp add: guarded_blood_bonus_def spec_blood_bonus_def)

lemma get_organ_availability_score_eq:
  "get_organ_availability_score oa recipient =
     min 1 (0.5 + guarded_blood_bonus recipient (blood_type oa)
                + spec_condition_bonus (condition oa))"
proof (cases "truthy recipient \<and> truthy (blood_type oa)")
  case True
  then obtain r d where rd: "recipient = Some r" "blood_type oa = Some d"
    by (auto simp: truthy_def split: option.splits)
  show ?thesis
    using True
    by (simp add: get_organ_availability_score_def Let_def guarded_blood_bonus_def
        spec_blood_bonus_def spec_compatible_def rd is_blood_type_compatible_spec
        condition_score_spec min.commute)
next
  case False
  then show ?thesis
    by (auto simp: get_organ_availability_score_def Let_def guarded_blood_bonus_def
        condition_score_spec min.commute)
qed

lemma guarded_blood_bonus_supplied:
  "truthy donor \<Longrightarrow> guarded_blood_bonus recipient donor = spec_blood_bonus recipient donor"
proof (cases "truthy recipient")
  case True
  assume "truthy donor"
  then show ?thesis
    using True by (simp add: guarded_blood_bonus_def)
next
  case False
  assume d: "truthy donor"
  then obtain t where t: "donor = Some t" "t \<noteq> []"
    by (auto simp: truthy_def split: option.splits)
  have "recipient = None \<or> recipient = Some []"
    using False by (auto simp: truthy_def split: option.splits)
  then have "spec_blood_bonus recipient donor = 0"
    using t by (auto simp: spec_blood_bonus_def spec_compatible_def spec_accepts_def)
  then show ?thesis
    using False by (simp add: guarded_blood_bonus_def)
qed

text \<open>
  C2. For every record whose blood type is supplied (as every record's is: one of the eight
  ABO/Rh types) and every recipient blood type, supplied or not, the score is
  \<open>min(1.0, 0.5 + blood_bonus + condition_bonus)\<close>, where the blood bonus is 0.3 when the
  recipient's and the donor's blood type are equal, else 0.2 when the pair is in the ABO/Rh
  table, else 0; the condition bonus is 0.2 for excellent, 0.1 for good, 0.05 for fair and 0
  otherwise. For every record, the score lies in \<open>[0, 1]\<close>; a recipient \<open>O-\<close> is
  compatible with \<open>O-\<close> only, and \<open>AB+\<close> with all eight types.
\<close>

theorem get_organ_availability_score_correct:
  "(truthy (blood_type oa) \<longrightarrow>
      get_organ_availability_score oa recipient =
        min 1 (0.5 + spec_blood_bonus recipient (blood_type oa)
                   + spec_condition_bonus (condition oa)))
   \<and> 0 \<le> get_organ_availability_score oa recipient
   \<and> get_organ_availability_score oa recipient \<le> 1
   \<and> (is_blood_type_compatible ''O-'' donor \<longleftrightarrow> donor = ''O-'')
   \<and> (is_blood_type_compatible ''AB+'' donor \<longleftrightarrow>
        donor \<in> {''O-'', ''O+'', ''A-'', ''A+'', ''B-'', ''B+'', ''AB-'', ''AB+''})"
proof -
  have formula: "get_organ_availability_score oa recipient =
        min 1 (0.5 + spec_blood_bonus recipient (blood_type oa)
                   + spec_condition_bonus (condition oa))"
    if "truthy (blood_type oa)"
    using that by (simp add: get_organ_availability_score_eq guarded_blood_bonus_supplied)
  have range: "0 \<le> 0.5 + guarded_blood_bonus recipient (blood_type oa)
                 + spec_condition_bonus (condition oa)"
    using guarded_blood_bonus_range [of recipient "blood_type oa"]
      spec_condition_bonus_range [of "condition oa"]
    by linarith
  have lo: "0 \<le> get_organ_availability_score oa recipient"
    using range by (simp add: get_organ_availability_score_eq)
  have hi: "get_organ_availability_score oa recipient \<le> 1"
    by (simp add: get_organ_availability_score_eq)
  have o: "is_blood_type_compatible ''O-'' donor \<longleftrightarrow> donor = ''O-''"
    by (simp add: is_blood_type_compatible_spec spec_accepts_def)
  have ab: "is_blood_type_compatible ''AB+'' donor \<longleftrightarrow>
        donor \<in> {''O-'', ''O+'', ''A-'', ''A+'', ''B-'', ''B+'', ''AB-'', ''AB+''}"
    by (simp add: is_blood_type_compatible_spec spec_accepts_def)
  show ?thesis
    using formula lo hi o ab by blast
qed

theorem get_organ_availability_score_correct_witness:
  "truthy (blood_type demo_organ)
   \<and> get_organ_availability_score demo_organ (Some ''A+'') = 0.9
   \<and> get_organ_availability_score demo_organ (Some ''AB+'') = 0.8
   \<and> get_organ_availability_score demo_organ (Some ''O-'') = 0.6
   \<and> get_organ_availability_score demo_organ None = 0.6"
  using get_organ_availability_score_correct [of demo_organ "Some ''A+''"]
    get_organ_availability_score_correct [of demo_organ "Some ''AB+''"]
    get_organ_availability_score_correct [of demo_organ "Some ''O-''"]
    get_organ_availability_score_correct [of demo_organ None]
  by (simp add: demo_organ_def truthy_def spec_blood_bonus_def spec_compatible_def
      spec_accepts_def spec_condition_bonus_def)

section \<open>The route synthesizer\<close>

lemma calculate_distance_km [simp]:
  "distance_km (calculate_distance (Location_of a b) (Location_of c d)) = haversine_distance a b c d"
  by (simp add: calculate_distance_def Location_of_def Let_def)

lemma calculate_distance_minutes:
  "estimated_travel_time_minutes (calculate_distance (Location_of a b) (Location_of c d)) =
     \<lfloor>haversine_distance a b c d / 50 * 60\<rfloor>"
  using haversine_distance_nonneg [of a b c d]
  by (simp add: calculate_distance_def Location_of_def Let_def py_int_nonneg)

lemma get_route_duration:
  "total_duration_minutes (get_route t a b c d mode) = \<lfloor>haversine_distance a b c d / 50 * 60\<rfloor>"
  by (simp add: get_route_def Let_def calculate_distance_minutes)

lemma get_route_duration_nonneg: "0 \<le> total_duration_minutes (get_route t a b c d mode)"
  using haversine_distance_nonneg [of a b c d] by (simp add: get_route_duration)

lemma get_route_distance [simp]:
  "total_distance_km (get_route t a b c d mode) = haversine_distance a b c d"
  by (simp add: get_route_def Let_def)

lemma get_route_steps:
  "steps (get_route t a b c d mode) =
     create_simplified_route_steps a b c d (haversine_distance a b c d)"
  by (simp add: get_route_def Let_def)

lemma step_duration_floor:
  "0 \<le> x \<Longrightarrow> py_int (x * 0.5 * 1000 / 1000 * 60) = \<lfloor>x * 0.5 * 1000 / 1000 * 60\<rfloor>"
  by (simp add: py_int_nonneg)

lemma speed_kmh_for_pos: "0 < speed_kmh_for mode"
  by (simp add: speed_kmh_for_def)

lemma speed_kmh_for_presets:
  "speed_kmh_for ''driving'' = 50" "speed_kmh_for ''walking'' = 5"
  "speed_kmh_for ''cycling'' = 15" "speed_kmh_for ''public_transport'' = 30"
  by (simp_all add: speed_kmh_for_def)

lemma floor_scaled_le: "0 \<le> n \<Longrightarrow> \<lfloor>0.8 * real_of_int n\<rfloor> \<le> n"
proof -
  assume "0 \<le> n"
  then have "0.8 * real_of_int n \<le> real_of_int n" by simp
  then have "\<lfloor>0.8 * real_of_int n\<rfloor> \<le> \<lfloor>real_of_int n\<rfloor>" by (rule floor_mono)
  then show ?thesis by simp
qed

lemma py_int_scaled: "0 \<le> n \<Longrightarrow> py_int (real_of_int n * 0.8) = \<lfloor>0.8 * real_of_int n\<rfloor>"
  by (simp add: py_int_nonneg mult.commute)

lemma step_durations_nonneg:
  "0 \<le> x \<Longrightarrow> s \<in> set (create_simplified_route_steps a b c d x) \<Longrightarrow> 0 \<le> duration_seconds s"
  by (auto simp: create_simplified_route_steps_def Let_def py_int_nonneg)

lemma emergency_total:
  "er_total_duration_minutes (er_route (get_emergency_route t1 t2 a b c d)) =
     py_int (real_of_int (total_duration_minutes (get_route t1 a b c d ''emergency'')) * 0.8)"
  by (simp add: get_emergency_route_def Let_def)

lemma emergency_saved:
  "estimated_time_saved (er_emergency_info (get_emergency_route t1 t2 a b c d)) =
     str_int (total_duration_minutes (get_route t1 a b c d ''emergency'')
              - er_total_duration_minutes (er_route (get_emergency_route t1 t2 a b c d)))
     @ '' minutes''"
  by (simp add: get_emergency_route_def Let_def)

text \<open>
  C3. For every pair of endpoints the emergency route reports a total duration of
  \<open>floor(0.8 \<times> standard duration)\<close>, hence at most the duration of the standard (driving)
  route for the same endpoints; each step's duration is \<open>floor(0.8 \<times> the standard step's
  duration)\<close>; the transport mode is \<open>emergency\<close>; and \<open>estimated_time_saved\<close> is the text
  of the standard duration minus the emergency duration, followed by \<open>minutes\<close>.
\<close>

theorem get_emergency_route_correct:
  "er_total_duration_minutes (er_route (get_emergency_route t1 t2 a b c d)) =
     \<lfloor>0.8 * real_of_int (total_duration_minutes (get_route t0 a b c d ''driving''))\<rfloor>
   \<and> er_total_duration_minutes (er_route (get_emergency_route t1 t2 a b c d))
       \<le> total_duration_minutes (get_route t0 a b c d ''driving'')
   \<and> map duration_seconds (er_steps (get_emergency_route t1 t2 a b c d)) =
       map (\<lambda>s. \<lfloor>0.8 * real_of_int (duration_seconds s)\<rfloor>)
         (steps (get_route t0 a b c d ''driving''))
   \<and> er_transport_mode (er_route (get_emergency_route t1 t2 a b c d)) = ''emergency''
   \<and> estimated_time_saved (er_emergency_info (get_emergency_route t1 t2 a b c d)) =
       str_int (total_duration_minutes (get_route t0 a b c d ''driving'')
                - er_total_duration_minutes (er_route (get_emergency_route t1 t2 a b c d)))
       @ '' minutes''"
proof -
  let ?n = "\<lfloor>haversine_distance a b c d / 50 * 60\<rfloor>"
  have n0: "0 \<le> ?n"
    using haversine_distance_nonneg [of a b c d] by simp
  have total: "er_total_duration_minutes (er_route (get_emergency_route t1 t2 a b c d)) =
      \<lfloor>0.8 * real_of_int ?n\<rfloor>"
    by (simp only: emergency_total get_route_duration py_int_scaled [OF n0])
  have le: "\<lfloor>0.8 * real_of_int ?n\<rfloor> \<le> ?n"
    using n0 by (rule floor_scaled_le)
  have stepwise: "map duration_seconds (er_steps (get_emergency_route t1 t2 a b c d)) =
      map (\<lambda>s. \<lfloor>0.8 * real_of_int (duration_seconds s)\<rfloor>)
        (steps (get_route t0 a b c d ''driving''))"
    using haversine_distance_nonneg [of a b c d]
    by (simp add: get_emergency_route_def Let_def get_route_steps
        create_simplified_route_steps_def py_int_nonneg mult.commute)
  have mode: "er_transport_mode (er_route (get_emergency_route t1 t2 a b c d)) = ''emergency''"
    by (simp add: get_emergency_route_def Let_def)
  have saved: "estimated_time_saved (er_emergency_info (get_emergency_route t1 t2 a b c d)) =
      str_int (?n - \<lfloor>0.8 * real_of_int ?n\<rfloor>) @ '' minutes''"
    by (simp only: emergency_saved emergency_total get_route_duration py_int_scaled [OF n0])
  show ?thesis
    using total le stepwise mode saved by (simp only: get_route_duration simp_thms)
qed

text \<open>
  C4, as stated: the duration of \<open>get_route\<close> follows the speed preset of the requested
  transport mode. For a walking route along half of the equator the duration is the
  driving one, \<open>floor(distance / 50 \<times> 60)\<close>, and not \<open>floor(distance / 5 \<times> 60)\<close>.
\<close>

theorem get_route_walking_counterexample:
  "total_duration_minutes (get_route 0 0 0 0 180 ''walking'') \<noteq>
     \<lfloor>total_distance_km (get_route 0 0 0 0 180 ''walking'') / speed_kmh_for ''walking'' * 60\<rfloor>"
proof -
  let ?x = "6371 * pi / 50 * 60"
  let ?y = "6371 * pi / 5 * 60"
  have "?x + 1 \<le> ?y"
    using pi_ge_two by simp
  then have "\<lfloor>?x + 1\<rfloor> \<le> \<lfloor>?y\<rfloor>"
    by (rule floor_mono)
  then have "\<lfloor>?x\<rfloor> < \<lfloor>?y\<rfloor>"
    by simp
  then show ?thesis
    by (simp add: get_route_duration haversine_distance_half_turn speed_kmh_for_presets)
qed

text \<open>
  C4, amended. For every transport mode the total duration of \<open>get_route\<close> is
  \<open>floor(distance_km / 50 \<times> 60)\<close>, the travel time \<open>calculate_distance\<close> estimates at the
  driving speed: the requested mode is recorded as the route's \<open>transport_mode\<close> and has no
  effect on the duration. The presets driving 50, walking 5, cycling 15, public transport
  30 and 50 for any other mode are those of \<open>calculate_route_time\<close>, whose estimate is
  \<open>floor(distance_km / preset \<times> 60)\<close>.
\<close>

theorem get_route_duration_correct:
  "total_duration_minutes (get_route t a b c d mode) =
     \<lfloor>total_distance_km (get_route t a b c d mode) / 50 * 60\<rfloor>
   \<and> total_duration_minutes (get_route t a b c d mode) =
       estimated_travel_time_minutes (calculate_distance (Location_of a b) (Location_of c d))
   \<and> transport_mode (get_route t a b c d mode) = mode
   \<and> map_option estimated_travel_time_minutes (calculate_route_time a b c d mode) =
       Some \<lfloor>total_distance_km (get_route t a b c d mode) / speed_kmh_for mode * 60\<rfloor>
   \<and> speed_kmh_for mode =
       (if mode = ''driving'' then 50 else if mode = ''walking'' then 5
        else if mode = ''cycling'' then 15 else if mode = ''public_transport'' then 30
        else 50)"
proof -
  have route_time: "map_option estimated_travel_time_minutes (calculate_route_time a b c d mode) =
       Some \<lfloor>haversine_distance a b c d / speed_kmh_for mode * 60\<rfloor>"
    using haversine_distance_nonneg [of a b c d] speed_kmh_for_pos [of mode]
    by (simp add: calculate_route_time_def Let_def py_int_nonneg)
  have presets: "speed_kmh_for mode =
       (if mode = ''driving'' then 50 else if mode = ''walking'' then 5
        else if mode = ''cycling'' then 15 else if mode = ''public_transport'' then 30
        else 50)"
    by (simp add: speed_kmh_for_def)
  have tag: "transport_mode (get_route t a b c d mode) = mode"
    by (simp add: get_route_def Let_def)
  show ?thesis
    using route_time presets tag
    by (simp only: get_route_duration get_route_distance calculate_distance_minutes simp_thms)
qed

text \<open>
  C5. For every pair of endpoints the route of \<open>get_route\<close> has exactly two steps: the
  first from the start to the arithmetic midpoint of the coordinates, the second from that
  midpoint to the end, so the first step starts at the route's start and the last step ends
  at the route's end; each step's \<open>distance_meters\<close> is \<open>total_distance_km \<times> 0.5 \<times> 1000\<close>
  and each step's duration is \<open>floor(distance_meters / 1000 \<times> 60)\<close>.
\<close>

theorem get_route_two_steps:
  "length (steps (get_route t a b c d mode)) = 2
   \<and> step_start_location (steps (get_route t a b c d mode) ! 0) = (a, b)
   \<and> step_end_location (steps (get_route t a b c d mode) ! 0) = ((a + c) / 2, (b + d) / 2)
   \<and> step_start_location (steps (get_route t a b c d mode) ! 1) = ((a + c) / 2, (b + d) / 2)
   \<and> step_end_location (steps (get_route t a b c d mode) ! 1) = (c, d)
   \<and> step_start_location (hd (steps (get_route t a b c d mode)))
       = start_location (get_route t a b c d mode)
   \<and> step_end_location (last (steps (get_route t a b c d mode)))
       = end_location (get_route t a b c d mode)
   \<and> map distance_meters (steps (get_route t a b c d mode)) =
       replicate 2 (total_distance_km (get_route t a b c d mode) * 0.5 * 1000)
   \<and> map duration_seconds (steps (get_route t a b c d mode)) =
       map (\<lambda>s. \<lfloor>distance_meters s / 1000 * 60\<rfloor>) (steps (get_route t a b c d mode))"
proof -
  have ends: "start_location (get_route t a b c d mode) = (a, b)"
    "end_location (get_route t a b c d mode) = (c, d)"
    by (simp_all add: get_route_def Let_def)
  have dur: "py_int (haversine_distance a b c d * 0.5 * 1000 / 1000 * 60) =
      \<lfloor>haversine_distance a b c d * 0.5 * 1000 / 1000 * 60\<rfloor>"
    using haversine_distance_nonneg [of a b c d] by (rule step_duration_floor)
  show ?thesis
    using dur
    by (simp add: ends get_route_steps create_simplified_route_steps_def Let_def
        numeral_2_eq_2)
qed

section \<open>The navigation session tracker\<close>

lemma str_nat_demo: "str_nat 1730000000 = ''1730000000''"
  by (simp add: digit_char_def)

lemma fraction_text_demo: "fraction_text 250000 = ''25''"
  by (simp add: fraction_text_def strip_trailing_zeros_def digit_char_def)

lemma str_timestamp_demo: "str_timestamp demo_time = ''1730000000.25''"
  by (simp add: str_timestamp_def demo_time_def str_nat_demo fraction_text_demo
      del: str_nat.simps)

lemma start_navigation_table:
  "fst (start_navigation navs t1 t2 t3 uid a b c d mode) =
     navs(''nav_'' @ uid @ ''_'' @ str_timestamp t1 \<mapsto>
       \<lparr> session_id = ''nav_'' @ uid @ ''_'' @ str_timestamp t1, user_id = uid,
         route = get_route t2 a b c d mode,
         current_step = 0, started_at = t3, status = ''active'',
         last_update = None, current_position = None, ended_at = None \<rparr>)"
  by (simp add: start_navigation_def Let_def)

lemma demo_navs_eq:
  "demo_navs =
     [demo_id \<mapsto>
       \<lparr> session_id = demo_id, user_id = ''u1'',
         route = get_route demo_time 0 0 0 (9 / 318550) ''driving'',
         current_step = 0, started_at = demo_time, status = ''active'',
         last_update = None, current_position = None, ended_at = None \<rparr>]"
  unfolding demo_navs_def start_navigation_table
  by (simp add: str_timestamp_demo demo_id_def del: str_nat.simps)

lemma update_navigation_unknown:
  "navs nid = None \<Longrightarrow>
     update_navigation navs t nid lat lon = (navs, ErrorPayload ''Navigation session not found'')"
  by (simp add: update_navigation_def)

lemma end_navigation_unknown:
  "navs nid = None \<Longrightarrow>
     end_navigation navs t nid = (navs, ErrorPayload ''Navigation session not found'')"
  by (simp add: end_navigation_def)

lemma update_navigation_known:
  "navs nid = Some s \<Longrightarrow>
     update_navigation navs t nid lat lon =
       (navs(nid \<mapsto> s\<lparr> last_update := Some t, current_position := Some (lat, lon) \<rparr>),
        Payload \<lparr> un_navigation_id = nid,
                  remaining_distance_km =
                    py_round2 (haversine_distance lat lon
                                 (fst (end_location (route s))) (snd (end_location (route s)))),
                  estimated_time_remaining_minutes =
                    \<lfloor>haversine_distance lat lon
                       (fst (end_location (route s))) (snd (end_location (route s))) / 50 * 60\<rfloor>,
                  un_current_step = current_step s,
                  un_status = ''active'' \<rparr>)"
  by (simp add: update_navigation_def Let_def calculate_distance_minutes)

lemma end_navigation_known:
  "navs nid = Some s \<Longrightarrow>
     end_navigation navs t nid =
       (navs(nid \<mapsto> s\<lparr> status := ''completed'', ended_at := Some t \<rparr>),
        Payload \<lparr> en_navigation_id = nid,
                  en_status = ''completed'',
                  duration_minutes = py_int (real_of_int (t - started_at s) / 1000000 / 60) \<rparr>)"
  by (simp add: end_navigation_def Let_def)

text \<open>
  C7. For a session id that is not in the session table, \<open>update_navigation\<close> and
  \<open>end_navigation\<close> each return the error payload with the text
  \<open>Navigation session not found\<close> (a returned value, with the table unchanged), and each
  returns an error payload if and only if the id is unknown.
\<close>

theorem navigation_not_found:
  "(navs nid = None \<longrightarrow>
      update_navigation navs t nid lat lon =
        (navs, ErrorPayload ''Navigation session not found''))
   \<and> (navs nid = None \<longrightarrow>
      end_navigation navs t nid = (navs, ErrorPayload ''Navigation session not found''))
   \<and> (is_error (snd (update_navigation navs t nid lat lon)) \<longleftrightarrow> nid \<notin> dom navs)
   \<and> (is_error (snd (end_navigation navs t nid)) \<longleftrightarrow> nid \<notin> dom navs)"
proof (cases "navs nid")
  case None
  then show ?thesis
    by (simp add: update_navigation_unknown end_navigation_unknown domIff)
next
  case (Some s)
  then show ?thesis
    by (simp add: update_navigation_known end_navigation_known domIff)
qed

theorem navigation_not_found_witness:
  "update_navigation Map.empty demo_time demo_id 0 0 =
     (Map.empty, ErrorPayload ''Navigation session not found'')
   \<and> end_navigation Map.empty demo_time demo_id =
     (Map.empty, ErrorPayload ''Navigation session not found'')
   \<and> is_error (snd (update_navigation Map.empty demo_time demo_id 0 0))
   \<and> is_error (snd (end_navigation Map.empty demo_time demo_id))
   \<and> \<not> is_error (snd (update_navigation demo_navs demo_time demo_id 0 0))
   \<and> \<not> is_error (snd (end_navigation demo_navs demo_time demo_id))"
  using navigation_not_found [of Map.empty demo_id demo_time 0 0]
    navigation_not_found [of demo_navs demo_id demo_time 0 0]
  by (simp add: demo_navs_eq)

lemma haversine_distance_near: "haversine_distance 0 0 0 (9 / 318550) = pi / 1000"
proof -
  let ?x = "pi / 12742000"
  have x: "0 \<le> ?x" "?x \<le> pi / 2" "- (pi / 2) \<le> ?x"
    using pi_gt_zero by simp_all
  have s0: "0 \<le> sin ?x"
    using x pi_gt_zero by (intro sin_ge_zero) simp_all
  have a: "haversine_a 0 0 0 (9 / 318550) = (sin ?x)\<^sup>2"
    by (simp add: haversine_a_def radians_def)
  have asin: "arcsin (sin ?x) = ?x"
    using x by (intro arcsin_sin) simp_all
  have c: "arcsin (sqrt (haversine_a 0 0 0 (9 / 318550))) = ?x"
    by (simp only: a real_sqrt_abs abs_of_nonneg [OF s0] asin)
  show ?thesis
    unfolding haversine_distance_def Let_def c earth_radius_km_def by simp
qed

lemma py_round2_small: "0 \<le> x \<Longrightarrow> x < 1 / 200 \<Longrightarrow> py_round2 x = 0"
proof -
  assume x: "0 \<le> x" "x < 1 / 200"
  then have f: "\<lfloor>x * 100\<rfloor> = 0"
    by (intro floor_unique) simp_all
  show ?thesis
    using x by (simp add: py_round2_def round_half_even_def Let_def f)
qed

lemma demo_route_end:
  "end_location (get_route t 0 0 0 (9 / 318550) mode) = (0, 9 / 318550)"
  by (simp add: get_route_def Let_def)

text \<open>
  C8, as stated: the remaining distance reported by \<open>update_navigation\<close> is the distance
  of the distance engine from the current position to the route's end. The response carries
  \<open>round(distance_km, 2)\<close>: \<open>pi\<close> metres before the destination the distance engine gives
  \<open>pi / 1000\<close> km and the response reports 0.
\<close>

theorem update_navigation_rounding_counterexample:
  "snd (update_navigation demo_navs demo_time demo_id 0 0) =
     Payload \<lparr> un_navigation_id = demo_id, remaining_distance_km = 0,
               estimated_time_remaining_minutes = 0, un_current_step = 0,
               un_status = ''active'' \<rparr>
   \<and> distance_km (calculate_distance (Location_of 0 0) (Location_of 0 (9 / 318550))) = pi / 1000
   \<and> pi / 1000 \<noteq> (0::real)"
proof -
  have d: "0 \<le> haversine_distance 0 0 0 (9 / 318550)"
    "haversine_distance 0 0 0 (9 / 318550) < 1 / 200"
    using pi_gt_zero pi_less_4 by (simp_all add: haversine_distance_near)
  have small: "py_round2 (haversine_distance 0 0 0 (9 / 318550)) = 0"
    using d by (rule py_round2_small)
  have minutes: "\<lfloor>6 * haversine_distance 0 0 0 (9 / 318550) / 5\<rfloor> = 0"
    using d by (intro floor_unique) simp_all
  have s: "demo_navs demo_id = Some \<lparr> session_id = demo_id, user_id = ''u1'',
         route = get_route demo_time 0 0 0 (9 / 318550) ''driving'',
         current_step = 0, started_at = demo_time, status = ''active'',
         last_update = None, current_position = None, ended_at = None \<rparr>"
    by (simp add: demo_navs_eq)
  have response: "snd (update_navigation demo_navs demo_time demo_id 0 0) =
     Payload \<lparr> un_navigation_id = demo_id, remaining_distance_km = 0,
               estimated_time_remaining_minutes = 0, un_current_step = 0,
               un_status = ''active'' \<rparr>"
    using s by (simp add: update_navigation_known demo_route_end small minutes)
  have nonzero: "pi / 1000 \<noteq> (0::real)"
    by simp
  show ?thesis
    using response nonzero by (simp add: haversine_distance_near)
qed

text \<open>
  C8, amended. For every existing session, \<open>update_navigation\<close> changes only the session's
  \<open>last_update\<close> and \<open>current_position\<close>: its id, user, route, current step, start time,
  status and end time are unchanged, and so is every other session. The \<open>current_step\<close> it
  returns is the stored one. The remaining distance it reports is the distance of the
  distance engine from the supplied position to the route's end point rounded to two
  decimal places, and the remaining time is the distance engine's estimate for that pair of
  points; neither is derived from the route's steps.
\<close>

theorem update_navigation_frame:
  assumes "navs nid = Some s"
  shows "update_navigation navs t nid lat lon =
       (navs(nid \<mapsto> s\<lparr> last_update := Some t, current_position := Some (lat, lon) \<rparr>),
        Payload \<lparr> un_navigation_id = nid,
                  remaining_distance_km =
                    py_round2 (distance_km (calculate_distance (Location_of lat lon)
                      (Location_of (fst (end_location (route s))) (snd (end_location (route s)))))),
                  estimated_time_remaining_minutes =
                    estimated_travel_time_minutes (calculate_distance (Location_of lat lon)
                      (Location_of (fst (end_location (route s))) (snd (end_location (route s))))),
                  un_current_step = current_step s,
                  un_status = ''active'' \<rparr>)
     \<and> map_option route (fst (update_navigation navs t nid lat lon) nid) = Some (route s)
     \<and> map_option current_step (fst (update_navigation navs t nid lat lon) nid)
         = Some (current_step s)
     \<and> map_option status (fst (update_navigation navs t nid lat lon) nid) = Some (status s)
     \<and> map_option user_id (fst (update_navigation navs t nid lat lon) nid) = Some (user_id s)
     \<and> map_option started_at (fst (update_navigation navs t nid lat lon) nid)
         = Some (started_at s)
     \<and> map_option last_update (fst (update_navigation navs t nid lat lon) nid) = Some (Some t)
     \<and> map_option current_position (fst (update_navigation navs t nid lat lon) nid)
         = Some (Some (lat, lon))"
  using assms by (simp add: update_navigation_known calculate_distance_minutes)

theorem update_navigation_frame_witness:
  "demo_navs demo_id =
     Some \<lparr> session_id = demo_id, user_id = ''u1'',
            route = get_route demo_time 0 0 0 (9 / 318550) ''driving'',
            current_step = 0, started_at = demo_time, status = ''active'',
            last_update = None, current_position = None, ended_at = None \<rparr>
   \<and> fst (update_navigation demo_navs (demo_time + 1) demo_id 0 0) demo_id =
     Some \<lparr> session_id = demo_id, user_id = ''u1'',
            route = get_route demo_time 0 0 0 (9 / 318550) ''driving'',
            current_step = 0, started_at = demo_time, status = ''active'',
            last_update = Some (demo_time + 1), current_position = Some (0, 0),
            ended_at = None \<rparr>"
proof -
  have s: "demo_navs demo_id =
     Some \<lparr> session_id = demo_id, user_id = ''u1'',
            route = get_route demo_time 0 0 0 (9 / 318550) ''driving'',
            current_step = 0, started_at = demo_time, status = ''active'',
            last_update = None, current_position = None, ended_at = None \<rparr>"
    by (simp add: demo_navs_eq)
  show ?thesis
    using update_navigation_frame [of demo_navs demo_id _ "demo_time + 1" 0 0, OF s] s by simp
qed

text \<open>
  C10. For a session whose status is already \<open>completed\<close>, \<open>update_navigation\<close> still
  succeeds: it returns no error payload, it overwrites \<open>last_update\<close> and
  \<open>current_position\<close> of the completed session, whose stored status stays \<open>completed\<close>, and
  its response reports the status \<open>active\<close>.
\<close>

theorem update_after_end:
  assumes "navs nid = Some s" and "status s = ''completed''"
  shows "\<not> is_error (snd (update_navigation navs t nid lat lon))
     \<and> fst (update_navigation navs t nid lat lon) =
         navs(nid \<mapsto> s\<lparr> last_update := Some t, current_position := Some (lat, lon) \<rparr>)
     \<and> map_option status (fst (update_navigation navs t nid lat lon) nid) = Some ''completed''
     \<and> map_option last_update (fst (update_navigation navs t nid lat lon) nid) = Some (Some t)
     \<and> map_option current_position (fst (update_navigation navs t nid lat lon) nid)
         = Some (Some (lat, lon))
     \<and> (case snd (update_navigation navs t nid lat lon) of
          Payload r \<Rightarrow> un_status r = ''active''
        | ErrorPayload msg \<Rightarrow> False)"
  using assms by (simp add: update_navigation_known)

theorem update_after_end_witness:
  "map_option status (fst (end_navigation demo_navs (demo_time + 1) demo_id) demo_id)
     = Some ''completed''
   \<and> \<not> is_error (snd (update_navigation (fst (end_navigation demo_navs (demo_time + 1) demo_id))
                        (demo_time + 2) demo_id 0 0))
   \<and> map_option status
       (fst (update_navigation (fst (end_navigation demo_navs (demo_time + 1) demo_id))
              (demo_time + 2) demo_id 0 0) demo_id) = Some ''completed''
   \<and> map_option last_update
       (fst (update_navigation (fst (end_navigation demo_navs (demo_time + 1) demo_id))
              (demo_time + 2) demo_id 0 0) demo_id) = Some (Some (demo_time + 2))"
proof -
  let ?s = "\<lparr> session_id = demo_id, user_id = ''u1'',
            route = get_route demo_time 0 0 0 (9 / 318550) ''driving'',
            current_step = 0, started_at = demo_time, status = ''active'',
            last_update = None, current_position = None, ended_at = None \<rparr>"
  let ?navs = "fst (end_navigation demo_navs (demo_time + 1) demo_id)"
  have s: "demo_navs demo_id = Some ?s"
    by (simp add: demo_navs_eq)
  have ended: "?navs demo_id = Some (?s\<lparr> status := ''completed'', ended_at := Some (demo_time + 1) \<rparr>)"
    using s by (simp add: end_navigation_known)
  have completed: "status (?s\<lparr> status := ''completed'', ended_at := Some (demo_time + 1) \<rparr>)
      = ''completed''"
    by simp
  show ?thesis
    using update_after_end [of ?navs demo_id _ "demo_time + 2" 0 0, OF ended completed] ended
    by simp
qed

subsection \<open>Session ids determine the user and the clock reading\<close>

declare str_nat.simps [simp del]































end
